theory Spec2Isabelle
  imports Main
begin

section \<open>Data model of the postgis persistence API\<close>

text \<open>
  The module \<^verbatim>\<open>datacube/drivers/postgis/_api.py\<close> issues SQL statements through a
  connection. The model keeps the tables the statements touch as lists of rows inside a
  \<open>connection\<close> value, and every method of \<^verbatim>\<open>PostgisDbAPI\<close> becomes a function that
  takes the connection and returns its result together with the connection afterwards.
  A Python exception is a value of type \<open>error\<close>; the connection returned beside it is
  the state the exception leaves behind.
\<close>

type_synonym uuid = nat
type_synonym timestamp = int

datatype document =
    DNull
  | DStr string
  | DNum int
  | DDict "(string \<times> document) list"

datatype error =
    ValueError
  | AssertionError
  | NotImplementedError
  | RuntimeError
  | TypeError
  | KeyError
  | AttributeError
  | DataError

record dataset_row =
  d_id :: uuid
  d_product_ref :: nat
  d_metadata_type_ref :: "nat option"
  d_metadata_doc :: document
  d_added :: timestamp
  d_added_by :: string
  d_archived :: "timestamp option"

record product_row =
  p_id :: nat
  p_name :: string
  p_metadata_type_ref :: nat
  p_metadata :: document
  p_definition :: document

record metadata_type_row =
  m_id :: nat
  m_name :: string
  m_definition :: document

record location_row =
  l_dataset_ref :: uuid
  l_uri_scheme :: string
  l_uri_body :: string
  l_added :: timestamp
  l_archived :: "timestamp option"

record source_row =
  s_classifier :: string
  s_dataset_ref :: uuid
  s_source_dataset_ref :: uuid

text \<open>
  One call of \<^verbatim>\<open>dynamic.check_dynamic_fields\<close>, the index and view builder; the
  builder itself is not part of this module, so the model records what it is handed.
\<close>

record dynamic_call =
  dc_concurrently :: bool
  dc_product_id :: nat
  dc_excluded_field_names :: "string list"
  dc_name :: string
  dc_rebuild_indexes :: bool
  dc_rebuild_view :: bool

record connection =
  dataset_rows :: "dataset_row list"
  product_rows :: "product_row list"
  metadata_type_rows :: "metadata_type_row list"
  location_rows :: "location_row list"
  source_rows :: "source_row list"
  transaction :: bool
  clock :: timestamp
  username :: string
  executed :: nat
  dynamic_calls :: "dynamic_call list"

text \<open>
  \<open>executed\<close> counts the statements sent through \<^verbatim>\<open>self._connection.execute\<close> (or
  \<^verbatim>\<open>scalar\<close>), so that "no statement was executed" is a property of the state.
  \<open>clock\<close> is the value of SQL \<^verbatim>\<open>now()\<close>, \<open>transaction\<close> the answer of
  \<^verbatim>\<open>self._connection.in_transaction()\<close>.
\<close>

definition sent :: "connection \<Rightarrow> connection" where
  "sent c = c\<lparr>executed := Suc (executed c)\<rparr>"

definition in_transaction :: "connection \<Rightarrow> bool" where
  "in_transaction c = transaction c"

subsection \<open>Statements\<close>

text \<open>
  \<^verbatim>\<open>UPDATE t SET ... WHERE p\<close> rewrites the rows satisfying \<open>p\<close>; its rowcount is
  the number of rows that satisfied \<open>p\<close>. \<^verbatim>\<open>DELETE FROM t WHERE p\<close> drops them.
\<close>

definition rowcount :: "('r \<Rightarrow> bool) \<Rightarrow> 'r list \<Rightarrow> nat" where
  "rowcount p rows = length (filter p rows)"

definition update_where :: "('r \<Rightarrow> bool) \<Rightarrow> ('r \<Rightarrow> 'r) \<Rightarrow> 'r list \<Rightarrow> 'r list" where
  "update_where p f rows = map (\<lambda>r. if p r then f r else r) rows"


section \<open>URIs\<close>



section \<open>Datasets\<close>





definition update_dataset :: "connection \<Rightarrow> document \<Rightarrow> uuid \<Rightarrow> nat \<Rightarrow> bool \<times> connection" where
  "update_dataset c metadata_doc dataset_id product_id =
     (let hit = (\<lambda>d. d_id d = dataset_id \<and> d_product_ref d = product_id)
      in (rowcount hit (dataset_rows c) > 0,
          sent (c\<lparr>dataset_rows :=
            update_where hit (\<lambda>d. d\<lparr>d_metadata_doc := metadata_doc\<rparr>) (dataset_rows c)\<rparr>)))"


definition archive_dataset :: "connection \<Rightarrow> uuid \<Rightarrow> bool \<times> connection" where
  "archive_dataset c dataset_id =
     (let hit = (\<lambda>d. d_id d = dataset_id \<and> d_archived d = None)
      in (rowcount hit (dataset_rows c) > 0,
          sent (c\<lparr>dataset_rows :=
            update_where hit (\<lambda>d. d\<lparr>d_archived := Some (clock c)\<rparr>) (dataset_rows c)\<rparr>)))"

definition restore_dataset :: "connection \<Rightarrow> uuid \<Rightarrow> bool \<times> connection" where
  "restore_dataset c dataset_id =
     (let hit = (\<lambda>d. d_id d = dataset_id)
      in (rowcount hit (dataset_rows c) > 0,
          sent (c\<lparr>dataset_rows :=
            update_where hit (\<lambda>d. d\<lparr>d_archived := None\<rparr>) (dataset_rows c)\<rparr>)))"

section \<open>Locations\<close>






section \<open>Fields, expressions and SQL clauses\<close>

datatype orm_table = DatasetLocation | Dataset | Product | MetadataType | DatasetSource

text \<open>
  A row of a \<^verbatim>\<open>FROM\<close> list: one row of every relation in the list, and nothing for
  a relation that is not in it.
\<close>

record joined_row =
  from_dataset :: "dataset_row option"
  from_location :: "location_row option"
  from_product :: "product_row option"
  from_metadata_type :: "metadata_type_row option"
  from_source :: "source_row option"

text \<open>
  An SQL boolean expression, as far as this module looks at one: the relations its
  columns belong to (SQLAlchemy puts them into the \<^verbatim>\<open>FROM\<close> list of a statement
  that does not join them) and whether it is true of a row. A \<^verbatim>\<open>WHERE\<close> keeps the
  rows on which its expression is true, so an expression that is NULL counts as not true.
\<close>

record clause =
  tables :: "orm_table list"
  holds :: "joined_row \<Rightarrow> bool"

type_synonym time_period = "timestamp \<times> timestamp option"

datatype extract_result = Returned "document option" | Raised error

text \<open>
  The field and expression classes are defined in \<^verbatim>\<open>_fields.py\<close> and
  \<^verbatim>\<open>datacube.index.fields\<close>, which are not available here; the model takes the
  attributes this module reads as the components of a field and of an expression.
  \<open>extract_doc\<close> is the \<^verbatim>\<open>extract\<close> method, which returns a value or
  \<^verbatim>\<open>None\<close> or raises, and is \<open>None\<close> for an object without an \<^verbatim>\<open>extract\<close>
  attribute. \<open>overlaps\<close> is \<^verbatim>\<open>field.alchemy_expression.overlaps(period)\<close>.
  An expression has its \<^verbatim>\<open>field\<close> and its \<^verbatim>\<open>alchemy_expression\<close>; an
  \<^verbatim>\<open>OrExpression\<close> has a \<^verbatim>\<open>field\<close> of its own and its \<^verbatim>\<open>exprs\<close>.
\<close>

record pg_field =
  field_name :: string
  required_alchemy_table :: orm_table
  extract_doc :: "(document \<Rightarrow> extract_result) option"
  overlaps :: "time_period \<Rightarrow> clause"

datatype expression =
    PgExpression pg_field clause
  | OrExpression pg_field "expression list"

fun field :: "expression \<Rightarrow> pg_field" where
  "field (PgExpression f a) = f"
| "field (OrExpression f exprs) = f"

text \<open>
  SQLAlchemy's \<^verbatim>\<open>and_\<close> and \<^verbatim>\<open>or_\<close>: the conjunction and the disjunction of
  expressions, which mention what their parts mention.
\<close>

definition sql_and :: "clause list \<Rightarrow> clause" where
  "sql_and cs = \<lparr>tables = concat (map tables cs), holds = (\<lambda>r. list_all (\<lambda>c. holds c r) cs)\<rparr>"

definition sql_or :: "clause list \<Rightarrow> clause" where
  "sql_or cs = \<lparr>tables = concat (map tables cs), holds = (\<lambda>r. list_ex (\<lambda>c. holds c r) cs)\<rparr>"

text \<open>\<^verbatim>\<open>Dataset.archived == None\<close>, that is \<^verbatim>\<open>dataset.archived IS NULL\<close>.\<close>

definition archived_is_null :: clause where
  "archived_is_null =
     \<lparr>tables = [Dataset],
      holds = (\<lambda>r. case from_dataset r of None \<Rightarrow> False | Some d \<Rightarrow> d_archived d = None)\<rparr>"

fun raw_expr :: "expression \<Rightarrow> clause" where
  "raw_expr (PgExpression f a) = a"
| "raw_expr (OrExpression f exprs) = sql_or (map raw_expr exprs)"

definition alchemify_expressions :: "expression list \<Rightarrow> clause list" where
  "alchemify_expressions expressions = map raw_expr expressions"

section \<open>Join resolution\<close>

definition sort_order_hack :: "orm_table list" where
  "sort_order_hack = [DatasetLocation, Dataset, Product, MetadataType]"

text \<open>
  \<^verbatim>\<open>_join_tables\<close>. Its optional arguments are \<^verbatim>\<open>None\<close> or a tuple; both
  \<^verbatim>\<open>None\<close> and the empty tuple are falsy and add nothing, so a list stands for
  either.
\<close>

definition join_tables :: "orm_table \<Rightarrow> expression list \<Rightarrow> pg_field list \<Rightarrow> orm_table list" where
  "join_tables source_table expressions fields' =
     (let s0 = {};
          s1 = (if expressions \<noteq> []
                then s0 \<union> set (map (\<lambda>e. required_alchemy_table (field e)) expressions) else s0);
          s2 = (if fields' \<noteq> [] then s1 \<union> set (map required_alchemy_table fields') else s1);
          s3 = s2 - {source_table}
      in filter (\<lambda>orm_table. orm_table \<in> s3) sort_order_hack)"

text \<open>
  The relations a query needs, in the words of the design: the union of the relation
  every expression's field and every selected field requires.
\<close>

definition required_relations :: "expression list \<Rightarrow> pg_field list \<Rightarrow> orm_table set" where
  "required_relations expressions fields' =
     (\<lambda>e. required_alchemy_table (field e)) ` set expressions
       \<union> required_alchemy_table ` set fields'"

section \<open>Queries\<close>

datatype column =
    DatasetEntity
  | ActiveUris
  | Labelled string orm_table
  | CountOf orm_table
  | CountStar

fun column_tables :: "column \<Rightarrow> orm_table list" where
  "column_tables DatasetEntity = [Dataset]"
| "column_tables ActiveUris = []"
| "column_tables (Labelled n t) = [t]"
| "column_tables (CountOf t) = [t]"
| "column_tables CountStar = []"

record select_query =
  q_columns :: "column list"
  q_select_from :: "orm_table list"
  q_joins :: "orm_table list"
  q_where :: "clause list"
  q_limit :: "nat option"

text \<open>
  \<^verbatim>\<open>_dataset_select_fields\<close>: the dataset record and the array of its active URIs,
  a correlated subquery that adds no relation to the \<^verbatim>\<open>FROM\<close> list.
\<close>

definition dataset_select_fields :: "column list" where
  "dataset_select_fields = [DatasetEntity, ActiveUris]"

subsection \<open>What a query returns\<close>

text \<open>
  Modelled from the spec: the foreign keys of the data model, which are declared in
  \<^verbatim>\<open>_schema.py\<close>, a module that is not available here, and which
  \<^verbatim>\<open>query.join(relation)\<close> joins on: a location and a lineage edge name their
  dataset, a dataset names its product and its metadata type.
\<close>

fun on_clause :: "orm_table \<Rightarrow> joined_row \<Rightarrow> bool" where
  "on_clause DatasetLocation r =
     (case (from_dataset r, from_location r) of
        (Some d, Some l) \<Rightarrow> l_dataset_ref l = d_id d | _ \<Rightarrow> False)"
| "on_clause Dataset r = True"
| "on_clause Product r =
     (case (from_dataset r, from_product r) of
        (Some d, Some p) \<Rightarrow> d_product_ref d = p_id p | _ \<Rightarrow> False)"
| "on_clause MetadataType r =
     (case (from_dataset r, from_metadata_type r) of
        (Some d, Some m) \<Rightarrow> d_metadata_type_ref d = Some (m_id m) | _ \<Rightarrow> False)"
| "on_clause DatasetSource r =
     (case (from_dataset r, from_source r) of
        (Some d, Some s) \<Rightarrow> s_dataset_ref s = d_id d | _ \<Rightarrow> False)"

definition no_row :: joined_row where
  "no_row = \<lparr>from_dataset = None, from_location = None, from_product = None,
             from_metadata_type = None, from_source = None\<rparr>"

fun with_table :: "connection \<Rightarrow> orm_table \<Rightarrow> joined_row \<Rightarrow> joined_row list" where
  "with_table c Dataset r = map (\<lambda>x. r\<lparr>from_dataset := Some x\<rparr>) (dataset_rows c)"
| "with_table c DatasetLocation r = map (\<lambda>x. r\<lparr>from_location := Some x\<rparr>) (location_rows c)"
| "with_table c Product r = map (\<lambda>x. r\<lparr>from_product := Some x\<rparr>) (product_rows c)"
| "with_table c MetadataType r =
     map (\<lambda>x. r\<lparr>from_metadata_type := Some x\<rparr>) (metadata_type_rows c)"
| "with_table c DatasetSource r = map (\<lambda>x. r\<lparr>from_source := Some x\<rparr>) (source_rows c)"

text \<open>The product of the relations of a \<^verbatim>\<open>FROM\<close> list.\<close>

fun cross :: "connection \<Rightarrow> orm_table list \<Rightarrow> joined_row list" where
  "cross c [] = [no_row]"
| "cross c (t # ts) = concat (map (with_table c t) (cross c ts))"

text \<open>
  The relations a statement reads: those it selects from and joins, and those its columns
  and criteria mention. SQL fixes no order of the rows without \<^verbatim>\<open>ORDER BY\<close>; the model
  lists the relations in one fixed order.
\<close>

definition all_tables :: "orm_table list" where
  "all_tables = [Dataset, DatasetLocation, Product, MetadataType, DatasetSource]"

definition query_tables :: "select_query \<Rightarrow> orm_table list" where
  "query_tables q =
     filter (\<lambda>t. t \<in> set (q_select_from q @ q_joins q @ concat (map column_tables (q_columns q))
                             @ concat (map tables (q_where q)))) all_tables"

definition selected :: "select_query \<Rightarrow> joined_row \<Rightarrow> bool" where
  "selected q r = (list_all (\<lambda>t. on_clause t r) (q_joins q) \<and> list_all (\<lambda>w. holds w r) (q_where q))"

definition query_rows :: "connection \<Rightarrow> select_query \<Rightarrow> joined_row list" where
  "query_rows c q =
     (let rows = filter (selected q) (cross c (query_tables q))
      in case q_limit q of None \<Rightarrow> rows | Some n \<Rightarrow> take n rows)"

definition execute :: "connection \<Rightarrow> select_query \<Rightarrow> joined_row list \<times> connection" where
  "execute c q = (query_rows c q, sent c)"

text \<open>\<^verbatim>\<open>connection.scalar\<close> of a query whose only column is a count.\<close>

definition scalar :: "connection \<Rightarrow> select_query \<Rightarrow> nat \<times> connection" where
  "scalar c q = (length (query_rows c q), sent c)"

section \<open>Search and count\<close>

text \<open>
  \<^verbatim>\<open>search_datasets_query\<close> begins with two \<^verbatim>\<open>assert\<close> statements, which
  raise \<^verbatim>\<open>AssertionError\<close> (they are taken as executed: the interpreter does not
  run with assertions stripped). \<^verbatim>\<open>select_fields\<close> is \<^verbatim>\<open>None\<close> or a tuple,
  and a list stands for either, as for \<^verbatim>\<open>_join_tables\<close>. The rows a query returns
  are kept as joined rows; the projection is recorded in the query.
\<close>

definition search_datasets_query ::
    "expression list \<Rightarrow> expression list option \<Rightarrow> pg_field list \<Rightarrow> bool \<Rightarrow> nat option
       \<Rightarrow> error + select_query" where
  "search_datasets_query expressions source_exprs select_fields with_source_ids limit =
     (if source_exprs \<noteq> None then Inl AssertionError
      else if with_source_ids then Inl AssertionError
      else
        (let select_columns =
               (if select_fields \<noteq> []
                then map (\<lambda>f. Labelled (field_name f) (required_alchemy_table f)) select_fields
                else dataset_select_fields);
             raw_expressions = alchemify_expressions expressions;
             joins = join_tables Dataset expressions select_fields;
             where_expr = sql_and (archived_is_null # raw_expressions)
         in Inr \<lparr>q_columns = select_columns, q_select_from = [Dataset], q_joins = joins,
                 q_where = [where_expr], q_limit = limit\<rparr>))"

definition search_datasets ::
    "connection \<Rightarrow> expression list \<Rightarrow> expression list option \<Rightarrow> pg_field list \<Rightarrow> bool
       \<Rightarrow> nat option \<Rightarrow> (error + joined_row list) \<times> connection" where
  "search_datasets c expressions source_exprs select_fields with_source_ids limit =
     (case search_datasets_query expressions source_exprs select_fields with_source_ids limit of
        Inl e \<Rightarrow> (Inl e, c)
      | Inr select_query \<Rightarrow> (let (rows, c') = execute c select_query in (Inr rows, c')))"

definition search_unique_datasets_query ::
    "expression list \<Rightarrow> pg_field list \<Rightarrow> nat option \<Rightarrow> error + select_query" where
  "search_unique_datasets_query expressions select_fields limit = Inl NotImplementedError"

definition search_unique_datasets ::
    "connection \<Rightarrow> expression list \<Rightarrow> pg_field list \<Rightarrow> nat option
       \<Rightarrow> (error + joined_row list) \<times> connection" where
  "search_unique_datasets c expressions select_fields limit =
     (case search_unique_datasets_query expressions select_fields limit of
        Inl e \<Rightarrow> (Inl e, c)
      | Inr select_query \<Rightarrow> (let (rows, c') = execute c select_query in (Inr rows, c')))"

text \<open>
  The statement of \<^verbatim>\<open>count_datasets\<close>: a count of dataset ids with one
  \<^verbatim>\<open>where\<close> for the archive test and one for the expressions, and neither
  \<^verbatim>\<open>select_from\<close> nor \<^verbatim>\<open>join\<close>.
\<close>

definition count_datasets_query :: "expression list \<Rightarrow> select_query" where
  "count_datasets_query expressions =
     (let raw_expressions = alchemify_expressions expressions
      in \<lparr>q_columns = [CountOf Dataset], q_select_from = [], q_joins = [],
          q_where = archived_is_null # raw_expressions, q_limit = None\<rparr>)"

definition count_datasets :: "connection \<Rightarrow> expression list \<Rightarrow> nat \<times> connection" where
  "count_datasets c expressions = scalar c (count_datasets_query expressions)"

section \<open>Counting through time\<close>

text \<open>
  PostgreSQL's \<^verbatim>\<open>generate_series(start, stop, step)\<close> on timestamps: the values
  \<open>start\<close>, \<open>start + step\<close>, ... up to \<open>stop\<close> (down to it for a negative step);
  a zero step is an error. An interval is a number of clock ticks here.
\<close>

function series_up :: "timestamp \<Rightarrow> timestamp \<Rightarrow> int \<Rightarrow> timestamp list" where
  "series_up cur stop step =
     (if 0 < step \<and> cur \<le> stop then cur # series_up (cur + step) stop step else [])"
  by pat_completeness auto
termination
  by (relation "measure (\<lambda>(cur, stop, step). nat (stop - cur + 1))") auto

function series_down :: "timestamp \<Rightarrow> timestamp \<Rightarrow> int \<Rightarrow> timestamp list" where
  "series_down cur stop step =
     (if step < 0 \<and> stop \<le> cur then cur # series_down (cur + step) stop step else [])"
  by pat_completeness auto
termination
  by (relation "measure (\<lambda>(cur, stop, step). nat (cur - stop + 1))") auto

definition generate_series :: "timestamp \<Rightarrow> timestamp \<Rightarrow> int \<Rightarrow> error + timestamp list" where
  "generate_series start stop step =
     (if step = 0 then Inl DataError
      else if 0 < step then Inr (series_up start stop step)
      else Inr (series_down start stop step))"

text \<open>\<^verbatim>\<open>lead(x) OVER ()\<close>: the value of the next row, NULL on the last row.\<close>

fun lead :: "'a list \<Rightarrow> 'a option list" where
  "lead [] = []"
| "lead (x # xs) = map Some xs @ [None]"

text \<open>
  \<^verbatim>\<open>tstzrange(lower, upper)\<close>: the half-open range from \<open>lower\<close> to \<open>upper\<close>,
  unbounded above when \<open>upper\<close> is NULL; an upper bound below the lower one is an error.
\<close>

definition tstzrange :: "timestamp \<Rightarrow> timestamp option \<Rightarrow> error + time_period" where
  "tstzrange lo hi =
     (case hi of
        None \<Rightarrow> Inr (lo, None)
      | Some h \<Rightarrow> if h < lo then Inl DataError else Inr (lo, Some h))"

definition upper_inf :: "time_period \<Rightarrow> bool" where
  "upper_inf p = (snd p = None)"

fun collect :: "(error + 'a) list \<Rightarrow> error + 'a list" where
  "collect [] = Inr []"
| "collect (x # xs) =
     (case x of
        Inl e \<Rightarrow> Inl e
      | Inr v \<Rightarrow> (case collect xs of Inl e \<Rightarrow> Inl e | Inr vs \<Rightarrow> Inr (v # vs)))"

text \<open>
  The statement \<^verbatim>\<open>count_datasets_through_time_query\<close> builds: the series of start
  times, and the count subquery, which is correlated with the period of the outer row.
\<close>

record time_query =
  tq_start :: timestamp
  tq_stop :: timestamp
  tq_step :: int
  tq_count_query :: "time_period \<Rightarrow> select_query"

definition count_datasets_through_time_query ::
    "timestamp \<Rightarrow> timestamp \<Rightarrow> int \<Rightarrow> pg_field \<Rightarrow> expression list \<Rightarrow> time_query" where
  "count_datasets_through_time_query start end_time period time_field expressions =
     (let raw_expressions = alchemify_expressions expressions;
          joins = join_tables Dataset expressions []
      in \<lparr>tq_start = start, tq_stop = end_time, tq_step = period,
          tq_count_query = (\<lambda>time_period.
            \<lparr>q_columns = [CountStar], q_select_from = [], q_joins = joins,
             q_where = [sql_and (overlaps time_field time_period # archived_is_null
                                  # raw_expressions)],
             q_limit = None\<rparr>)\<rparr>)"

definition execute_time_query ::
    "connection \<Rightarrow> time_query \<Rightarrow> (error + (time_period \<times> nat) list) \<times> connection" where
  "execute_time_query c tq =
     (case generate_series (tq_start tq) (tq_stop tq) (tq_step tq) of
        Inl e \<Rightarrow> (Inl e, sent c)
      | Inr start_times \<Rightarrow>
          (case collect (map2 tstzrange start_times (lead start_times)) of
             Inl e \<Rightarrow> (Inl e, sent c)
           | Inr all_time_ranges \<Rightarrow>
               (let time_ranges = filter (\<lambda>p. \<not> upper_inf p) all_time_ranges
                in (Inr (map (\<lambda>p. (p, length (query_rows c (tq_count_query tq p)))) time_ranges),
                    sent c))))"

definition count_datasets_through_time ::
    "connection \<Rightarrow> timestamp \<Rightarrow> timestamp \<Rightarrow> int \<Rightarrow> pg_field \<Rightarrow> expression list
       \<Rightarrow> (error + (time_period \<times> nat) list) \<times> connection" where
  "count_datasets_through_time c start end_time period time_field expressions =
     (case execute_time_query c
             (count_datasets_through_time_query start end_time period time_field expressions) of
        (Inl e, c') \<Rightarrow> (Inl e, c')
      | (Inr results, c') \<Rightarrow>
          (Inr (map (\<lambda>(time_period, dataset_count).
                  ((fst time_period, snd time_period), dataset_count)) results), c'))"

subsection \<open>The count of one bucket, stated directly\<close>

text \<open>
  What the design asks of the count of a bucket: the number of rows of the dataset
  relation, joined to the relations the expressions require, whose dataset is not
  archived, on which every expression is true (a disjunctive expression when one of its
  parts is) and whose time field overlaps the bucket. A relation that a criterion mentions
  and that is not joined stands in the \<^verbatim>\<open>FROM\<close> list unjoined.
\<close>

fun expression_holds :: "expression \<Rightarrow> joined_row \<Rightarrow> bool" where
  "expression_holds (PgExpression f a) r = holds a r"
| "expression_holds (OrExpression f exprs) r = (\<exists>e \<in> set exprs. expression_holds e r)"

fun mentioned :: "expression \<Rightarrow> orm_table list" where
  "mentioned (PgExpression f a) = tables a"
| "mentioned (OrExpression f exprs) = concat (map mentioned exprs)"


section \<open>Dynamic fields and products\<close>

text \<open>
  \<^verbatim>\<open>_get_active_field_names\<close> is a generator and \<^verbatim>\<open>_setup_product_fields\<close> puts
  it into a tuple: an exception the generator does not catch ends the tuple as well.
  \<open>fields\<close> is a dictionary; its values are iterated in order.
\<close>

fun active_names :: "pg_field list \<Rightarrow> document \<Rightarrow> error + string list" where
  "active_names [] metadata_doc = Inr []"
| "active_names (f # rest) metadata_doc =
     (case extract_doc f of
        None \<Rightarrow> active_names rest metadata_doc
      | Some ex \<Rightarrow>
          (case ex metadata_doc of
             Returned v \<Rightarrow>
               (if v \<noteq> None
                then (case active_names rest metadata_doc of
                        Inl e \<Rightarrow> Inl e
                      | Inr names \<Rightarrow> Inr (field_name f # names))
                else active_names rest metadata_doc)
           | Raised e \<Rightarrow>
               (if e = AttributeError \<or> e = KeyError \<or> e = ValueError
                then active_names rest metadata_doc
                else Inl e)))"

text \<open>
  The two notions the active field set is described with: a field is active for a document
  when it has an \<^verbatim>\<open>extract\<close> that returns a value other than \<^verbatim>\<open>None\<close>; an
  extraction fails as absence when it raises one of the exceptions for a missing key, a
  missing attribute or a value that does not parse.
\<close>

definition active_for :: "document \<Rightarrow> pg_field \<Rightarrow> bool" where
  "active_for metadata_doc f =
     (case extract_doc f of
        None \<Rightarrow> False
      | Some ex \<Rightarrow> (case ex metadata_doc of Returned v \<Rightarrow> v \<noteq> None | Raised e \<Rightarrow> False))"

definition absence_error :: "error \<Rightarrow> bool" where
  "absence_error e = (e = AttributeError \<or> e = KeyError \<or> e = ValueError)"

definition raises :: "document \<Rightarrow> pg_field \<Rightarrow> error \<Rightarrow> bool" where
  "raises metadata_doc f e =
     (case extract_doc f of
        None \<Rightarrow> False
      | Some ex \<Rightarrow> ex metadata_doc = Raised e)"

definition get_active_field_names ::
    "(string \<times> pg_field) list \<Rightarrow> document \<Rightarrow> error + string list" where
  "get_active_field_names fields' metadata_doc = active_names (map snd fields') metadata_doc"

definition setup_product_fields ::
    "connection \<Rightarrow> nat \<Rightarrow> string \<Rightarrow> (string \<times> pg_field) list \<Rightarrow> document \<Rightarrow> bool \<Rightarrow> bool \<Rightarrow> bool
       \<Rightarrow> (error + unit) \<times> connection" where
  "setup_product_fields c id' product_name fields' metadata_doc rebuild_indexes rebuild_view
       concurrently =
     (case get_active_field_names fields' metadata_doc of
        Inl e \<Rightarrow> (Inl e, c)
      | Inr excluded_field_names \<Rightarrow>
          (Inr (), c\<lparr>dynamic_calls := dynamic_calls c @
             [\<lparr>dc_concurrently = concurrently, dc_product_id = id',
               dc_excluded_field_names = excluded_field_names, dc_name = product_name,
               dc_rebuild_indexes = rebuild_indexes, dc_rebuild_view = rebuild_view\<rparr>]\<rparr>))"

text \<open>\<^verbatim>\<open>doc[key]\<close> on a Python value that may or may not be a dictionary.\<close>

definition getitem :: "document \<Rightarrow> string \<Rightarrow> error + document" where
  "getitem doc key =
     (case doc of
        DDict items \<Rightarrow> (case map_of items key of None \<Rightarrow> Inl KeyError | Some v \<Rightarrow> Inr v)
      | _ \<Rightarrow> Inl TypeError)"

definition update_product ::
    "connection \<Rightarrow> string \<Rightarrow> document \<Rightarrow> nat \<Rightarrow> (string \<times> pg_field) list \<Rightarrow> document \<Rightarrow> bool
       \<Rightarrow> bool \<Rightarrow> (error + nat) \<times> connection" where
  "update_product c product_name metadata metadata_type_id search_fields defn
       update_metadata_type concurrently =
     (let hit = (\<lambda>p. p_name p = product_name);
          res = map p_id (filter hit (product_rows c));
          c1 = sent (c\<lparr>product_rows :=
                 update_where hit
                   (\<lambda>p. p\<lparr>p_metadata := metadata, p_metadata_type_ref := metadata_type_id,
                           p_definition := defn\<rparr>) (product_rows c)\<rparr>)
      in case res of
           [] \<Rightarrow> (Inl TypeError, c1)
         | prod_id # others \<Rightarrow>
             (case (if update_metadata_type
                    then (if \<not> in_transaction c1 then Inl RuntimeError
                          else Inr (sent (c1\<lparr>dataset_rows :=
                                 update_where (\<lambda>d. d_product_ref d = prod_id)
                                   (\<lambda>d. d\<lparr>d_metadata_type_ref := Some metadata_type_id\<rparr>)
                                   (dataset_rows c1)\<rparr>)))
                    else Inr c1) of
                Inl e \<Rightarrow> (Inl e, c1)
              | Inr c2 \<Rightarrow>
                  (case getitem defn ''metadata'' of
                     Inl e \<Rightarrow> (Inl e, c2)
                   | Inr metadata_doc \<Rightarrow>
                       (case setup_product_fields c2 prod_id product_name search_fields
                               metadata_doc False True concurrently of
                          (Inl e, c3) \<Rightarrow> (Inl e, c3)
                        | (Inr u, c3) \<Rightarrow> (Inr prod_id, c3)))))"

text \<open>
  The connection after the first statement of \<^verbatim>\<open>update_product\<close>, the update of the
  product rows with the given name.
\<close>

definition product_updated ::
    "connection \<Rightarrow> string \<Rightarrow> document \<Rightarrow> nat \<Rightarrow> document \<Rightarrow> connection" where
  "product_updated c product_name metadata metadata_type_id defn =
     sent (c\<lparr>product_rows :=
       update_where (\<lambda>p. p_name p = product_name)
         (\<lambda>p. p\<lparr>p_metadata := metadata, p_metadata_type_ref := metadata_type_id,
                 p_definition := defn\<rparr>) (product_rows c)\<rparr>)"

section \<open>Example data\<close>

definition ds1 :: dataset_row where
  "ds1 = \<lparr>d_id = 7, d_product_ref = 1, d_metadata_type_ref = Some 1, d_metadata_doc = DNull,
          d_added = 10, d_added_by = ''odc'', d_archived = None\<rparr>"

definition conn1 :: connection where
  "conn1 = \<lparr>dataset_rows = [ds1], product_rows = [], metadata_type_rows = [],
            location_rows = [], source_rows = [], transaction = False, clock = 20,
            username = ''odc'', executed = 0, dynamic_calls = []\<rparr>"

definition conn0 :: connection where
  "conn0 = \<lparr>dataset_rows = [], product_rows = [], metadata_type_rows = [],
            location_rows = [], source_rows = [], transaction = False, clock = 20,
            username = ''odc'', executed = 0, dynamic_calls = []\<rparr>"

text \<open>A field on a column of a relation, like the native fields: it has no \<open>extract\<close>.\<close>

definition native_field :: "string \<Rightarrow> orm_table \<Rightarrow> pg_field" where
  "native_field n t =
     \<lparr>field_name = n, required_alchemy_table = t, extract_doc = None,
      overlaps = (\<lambda>p. \<lparr>tables = [t], holds = (\<lambda>r. False)\<rparr>)\<rparr>"

definition product_is :: "string \<Rightarrow> expression" where
  "product_is n =
     PgExpression (native_field ''product'' Product)
       \<lparr>tables = [Product],
        holds = (\<lambda>r. case from_product r of None \<Rightarrow> False | Some p \<Rightarrow> p_name p = n)\<rparr>"

definition product_id_is :: "nat \<Rightarrow> expression" where
  "product_id_is n =
     PgExpression (native_field ''product_id'' Dataset)
       \<lparr>tables = [Dataset],
        holds = (\<lambda>r. case from_dataset r of None \<Rightarrow> False | Some d \<Rightarrow> d_product_ref d = n)\<rparr>"

definition uri_is :: "string \<Rightarrow> string \<Rightarrow> expression" where
  "uri_is scheme body =
     PgExpression (native_field ''uri'' DatasetLocation)
       \<lparr>tables = [DatasetLocation],
        holds = (\<lambda>r. case from_location r of None \<Rightarrow> False
                      | Some l \<Rightarrow> l_uri_scheme l = scheme \<and> l_uri_body l = body)\<rparr>"

text \<open>
  A field read from a key of the metadata document: a missing key raises
  \<^verbatim>\<open>KeyError\<close>, a document that is no dictionary \<^verbatim>\<open>AttributeError\<close>, and a null
  is returned as \<^verbatim>\<open>None\<close>.
\<close>

definition extract_key :: "string \<Rightarrow> document \<Rightarrow> extract_result" where
  "extract_key k doc =
     (case doc of
        DDict items \<Rightarrow>
          (case map_of items k of
             None \<Rightarrow> Raised KeyError
           | Some v \<Rightarrow> Returned (if v = DNull then None else Some v))
      | _ \<Rightarrow> Raised AttributeError)"

definition doc_field :: "string \<Rightarrow> pg_field" where
  "doc_field n =
     \<lparr>field_name = n, required_alchemy_table = Dataset, extract_doc = Some (extract_key n),
      overlaps = (\<lambda>p. \<lparr>tables = [Dataset], holds = (\<lambda>r. False)\<rparr>)\<rparr>"

definition fields1 :: "(string \<times> pg_field) list" where
  "fields1 = [(''id'', native_field ''id'' Dataset), (''label'', doc_field ''label''),
              (''format'', doc_field ''format''), (''platform'', doc_field ''platform'')]"

definition doc1 :: document where
  "doc1 = DDict [(''label'', DStr ''scene''), (''platform'', DNull)]"

definition product1 :: product_row where
  "product1 = \<lparr>p_id = 3, p_name = ''ls8'', p_metadata_type_ref = 1, p_metadata = DNull,
               p_definition = DNull\<rparr>"

definition ds2 :: dataset_row where
  "ds2 = \<lparr>d_id = 8, d_product_ref = 3, d_metadata_type_ref = Some 1, d_metadata_doc = DNull,
          d_added = 11, d_added_by = ''odc'', d_archived = None\<rparr>"

definition conn2 :: "bool \<Rightarrow> connection" where
  "conn2 tx = \<lparr>dataset_rows = [ds1, ds2], product_rows = [product1], metadata_type_rows = [],
               location_rows = [], source_rows = [], transaction = tx, clock = 20,
               username = ''odc'', executed = 0, dynamic_calls = []\<rparr>"

definition defn1 :: document where
  "defn1 = DDict [(''name'', DStr ''ls8''), (''metadata'', doc1)]"


definition product2 :: product_row where
  "product2 = \<lparr>p_id = 1, p_name = ''s2'', p_metadata_type_ref = 1, p_metadata = DNull,
               p_definition = DNull\<rparr>"

text \<open>Two products and one active dataset, of the product \<open>s2\<close>.\<close>

definition conn3 :: connection where
  "conn3 = \<lparr>dataset_rows = [ds1], product_rows = [product1, product2],
            metadata_type_rows = [], location_rows = [], source_rows = [],
            transaction = False, clock = 20, username = ''odc'', executed = 0,
            dynamic_calls = []\<rparr>"

section \<open>Statements: basic facts\<close>

lemma rowcount_pos: "(0 < rowcount p rows) = (\<exists>r \<in> set rows. p r)"
  by (simp add: rowcount_def filter_empty_conv)

lemma dataset_rows_sent [simp]: "dataset_rows (sent c) = dataset_rows c"
  by (simp add: sent_def)

lemma bex_map: "(\<exists>y \<in> set (map f xs). P y) = (\<exists>x \<in> set xs. P (f x))"
  by simp

lemma update_where_miss: "\<forall>r \<in> set rows. \<not> p r \<Longrightarrow> update_where p f rows = rows"
  by (simp add: update_where_def map_idI)

lemma raw_expr_holds: "holds (raw_expr e) r = expression_holds e r"
  by (induction e) (simp_all add: sql_or_def list_ex_iff)

lemma raw_expr_tables: "tables (raw_expr e) = mentioned e"
  by (induction e) (simp_all add: sql_or_def cong: map_cong)

section \<open>Archiving and restoring a dataset\<close>

lemma archive_dataset_result:
  "fst (archive_dataset c i) = (\<exists>d \<in> set (dataset_rows c). d_id d = i \<and> d_archived d = None)"
  by (simp add: archive_dataset_def Let_def rowcount_pos)

lemma archive_dataset_rows:
  "dataset_rows (snd (archive_dataset c i)) =
     map (\<lambda>d. if d_id d = i \<and> d_archived d = None then d\<lparr>d_archived := Some (clock c)\<rparr> else d)
       (dataset_rows c)"
  by (simp add: archive_dataset_def Let_def update_where_def)

lemma restore_dataset_result:
  "fst (restore_dataset c i) = (\<exists>d \<in> set (dataset_rows c). d_id d = i)"
  by (simp add: restore_dataset_def Let_def rowcount_pos)

lemma restore_dataset_rows:
  "dataset_rows (snd (restore_dataset c i)) =
     map (\<lambda>d. if d_id d = i then d\<lparr>d_archived := None\<rparr> else d) (dataset_rows c)"
  by (simp add: restore_dataset_def Let_def update_where_def)

lemma archive_twice_false: "\<not> fst (archive_dataset (snd (archive_dataset c i)) i)"
  unfolding archive_dataset_result archive_dataset_rows bex_map by simp

lemma restore_then_archive:
  "fst (archive_dataset (snd (restore_dataset c i)) i) = (\<exists>d \<in> set (dataset_rows c). d_id d = i)"
  unfolding archive_dataset_result restore_dataset_rows bex_map by simp

text \<open>
  Claim C5. \<^verbatim>\<open>archive_dataset\<close> sets \<open>archived\<close> to the current time exactly on
  the rows with the given id whose \<open>archived\<close> is NULL, and returns whether there was such
  a row; \<^verbatim>\<open>restore_dataset\<close> clears \<open>archived\<close> on the rows with the given id and
  returns whether there was one. So on an active dataset two archive calls in a row
  return true and then false, the restore that follows returns true, and the archive
  after it returns true again.
\<close>

theorem archive_restore_dataset:
  "fst (archive_dataset c i)
     = (\<exists>d \<in> set (dataset_rows c). d_id d = i \<and> d_archived d = None)
   \<and> dataset_rows (snd (archive_dataset c i))
     = map (\<lambda>d. if d_id d = i \<and> d_archived d = None then d\<lparr>d_archived := Some (clock c)\<rparr> else d)
         (dataset_rows c)
   \<and> fst (restore_dataset c i) = (\<exists>d \<in> set (dataset_rows c). d_id d = i)
   \<and> dataset_rows (snd (restore_dataset c i))
     = map (\<lambda>d. if d_id d = i then d\<lparr>d_archived := None\<rparr> else d) (dataset_rows c)
   \<and> ((\<exists>d \<in> set (dataset_rows c). d_id d = i \<and> d_archived d = None) \<longrightarrow>
        fst (archive_dataset c i)
      \<and> \<not> fst (archive_dataset (snd (archive_dataset c i)) i)
      \<and> fst (restore_dataset (snd (archive_dataset (snd (archive_dataset c i)) i)) i)
      \<and> fst (archive_dataset
               (snd (restore_dataset (snd (archive_dataset (snd (archive_dataset c i)) i)) i)) i))"
proof (intro conjI impI)
  assume act: "\<exists>d \<in> set (dataset_rows c). d_id d = i \<and> d_archived d = None"
  show a1: "fst (archive_dataset c i)"
    using act by (simp only: archive_dataset_result)
  have ex1: "\<exists>d \<in> set (dataset_rows (snd (archive_dataset c i))). d_id d = i"
    unfolding archive_dataset_rows bex_map using act by (simp split: if_splits) blast
  have ex2: "\<exists>d \<in> set (dataset_rows (snd (archive_dataset (snd (archive_dataset c i)) i))). d_id d = i"
    unfolding archive_dataset_rows [of "snd (archive_dataset c i)"] bex_map using ex1
    by (simp split: if_splits) blast
  show "\<not> fst (archive_dataset (snd (archive_dataset c i)) i)"
    by (rule archive_twice_false)
  show "fst (restore_dataset (snd (archive_dataset (snd (archive_dataset c i)) i)) i)"
    using ex2 by (simp only: restore_dataset_result)
  show "fst (archive_dataset
               (snd (restore_dataset (snd (archive_dataset (snd (archive_dataset c i)) i)) i)) i)"
    using ex2 by (simp only: restore_then_archive)
qed (simp_all only: archive_dataset_result archive_dataset_rows restore_dataset_result
        restore_dataset_rows)

theorem archive_restore_dataset_witness:
  "fst (archive_dataset conn1 7)
   \<and> \<not> fst (archive_dataset (snd (archive_dataset conn1 7)) 7)
   \<and> fst (restore_dataset (snd (archive_dataset (snd (archive_dataset conn1 7)) 7)) 7)
   \<and> fst (archive_dataset
        (snd (restore_dataset (snd (archive_dataset (snd (archive_dataset conn1 7)) 7)) 7)) 7)
   \<and> map d_archived (dataset_rows (snd (archive_dataset conn1 7))) = [Some 20]"
proof -
  have act: "\<exists>d \<in> set (dataset_rows conn1). d_id d = 7 \<and> d_archived d = None"
    by (simp add: conn1_def ds1_def)
  have rows: "map d_archived (dataset_rows (snd (archive_dataset conn1 7))) = [Some 20]"
    by (simp add: archive_dataset_def conn1_def ds1_def update_where_def sent_def)
  note seq = archive_restore_dataset [of conn1 7, THEN conjunct2, THEN conjunct2,
      THEN conjunct2, THEN conjunct2, THEN mp, OF act]
  show ?thesis
    by (intro conjI seq [THEN conjunct1] seq [THEN conjunct2, THEN conjunct1]
        seq [THEN conjunct2, THEN conjunct2, THEN conjunct1]
        seq [THEN conjunct2, THEN conjunct2, THEN conjunct2] rows)
qed

section \<open>Inserting a dataset twice\<close>








section \<open>Updating a dataset\<close>

lemma update_dataset_result:
  "fst (update_dataset c doc i p)
     = (\<exists>d \<in> set (dataset_rows c). d_id d = i \<and> d_product_ref d = p)"
  by (simp add: update_dataset_def Let_def rowcount_pos)

lemma update_dataset_rows:
  "dataset_rows (snd (update_dataset c doc i p)) =
     update_where (\<lambda>d. d_id d = i \<and> d_product_ref d = p) (\<lambda>d. d\<lparr>d_metadata_doc := doc\<rparr>)
       (dataset_rows c)"
  by (simp add: update_dataset_def Let_def)

text \<open>
  Claim C10. \<^verbatim>\<open>update_dataset\<close> replaces the metadata document of exactly the rows
  that match both the dataset id and the product id, and returns true exactly when there
  is such a row. When every row with the id belongs to another product, it returns false
  and the table is unchanged.
\<close>

theorem update_dataset_matches_id_and_product:
  "fst (update_dataset c doc i p)
     = (\<exists>d \<in> set (dataset_rows c). d_id d = i \<and> d_product_ref d = p)
   \<and> dataset_rows (snd (update_dataset c doc i p))
     = map (\<lambda>d. if d_id d = i \<and> d_product_ref d = p then d\<lparr>d_metadata_doc := doc\<rparr> else d)
         (dataset_rows c)
   \<and> ((\<forall>d \<in> set (dataset_rows c). d_id d = i \<longrightarrow> d_product_ref d \<noteq> p) \<longrightarrow>
        \<not> fst (update_dataset c doc i p)
      \<and> dataset_rows (snd (update_dataset c doc i p)) = dataset_rows c)"
proof (intro conjI impI)
  assume miss: "\<forall>d \<in> set (dataset_rows c). d_id d = i \<longrightarrow> d_product_ref d \<noteq> p"
  then have none: "\<forall>d \<in> set (dataset_rows c). \<not> (d_id d = i \<and> d_product_ref d = p)"
    by blast
  show "\<not> fst (update_dataset c doc i p)"
    using none by (simp add: update_dataset_result)
  show "dataset_rows (snd (update_dataset c doc i p)) = dataset_rows c"
    using none by (simp add: update_dataset_rows update_where_miss)
qed (simp_all only: update_dataset_result update_dataset_rows update_where_def)

theorem update_dataset_matches_id_and_product_witness:
  "\<not> fst (update_dataset conn1 (DStr ''new'') 7 2)
   \<and> dataset_rows (snd (update_dataset conn1 (DStr ''new'') 7 2)) = dataset_rows conn1
   \<and> fst (update_dataset conn1 (DStr ''new'') 7 1)
   \<and> map d_metadata_doc (dataset_rows (snd (update_dataset conn1 (DStr ''new'') 7 1)))
     = [DStr ''new'']"
proof -
  have miss: "\<forall>d \<in> set (dataset_rows conn1). d_id d = 7 \<longrightarrow> d_product_ref d \<noteq> 2"
    by (simp add: conn1_def ds1_def)
  note other = update_dataset_matches_id_and_product [of conn1 "DStr ''new''" 7 2,
      THEN conjunct2, THEN conjunct2, THEN mp, OF miss]
  note same = update_dataset_matches_id_and_product [of conn1 "DStr ''new''" 7 1]
  have hit: "fst (update_dataset conn1 (DStr ''new'') 7 1)"
    unfolding same [THEN conjunct1] by (simp add: conn1_def ds1_def)
  have docs: "map d_metadata_doc (dataset_rows (snd (update_dataset conn1 (DStr ''new'') 7 1)))
     = [DStr ''new'']"
    unfolding same [THEN conjunct2, THEN conjunct1] by (simp add: conn1_def ds1_def)
  show ?thesis
    by (intro conjI other [THEN conjunct1] other [THEN conjunct2] hit docs)
qed

section \<open>Locations are keyed on the split URI\<close>














section \<open>Unsupported searches\<close>

text \<open>
  Claim C2. \<^verbatim>\<open>search_datasets_query\<close> asserts that \<^verbatim>\<open>source_exprs\<close> is
  \<^verbatim>\<open>None\<close> and \<^verbatim>\<open>with_source_ids\<close> is false before it builds anything, so with a
  lineage argument it ends in \<^verbatim>\<open>AssertionError\<close>, and \<^verbatim>\<open>search_datasets\<close>,
  which builds the query before it executes it, ends in the same error with the
  connection untouched: no statement was sent. \<^verbatim>\<open>search_unique_datasets_query\<close>
  raises \<^verbatim>\<open>NotImplementedError\<close> whatever its arguments, and
  \<^verbatim>\<open>search_unique_datasets\<close> with it, again before any statement. Without lineage
  arguments the ordinary search builds a query and sends one statement, so the errors are
  not how the search always ends.
\<close>

theorem lineage_and_unique_search_unsupported:
  "(source_exprs \<noteq> None \<or> with_source_ids \<longrightarrow>
      search_datasets_query expressions source_exprs select_fields with_source_ids limit
        = Inl AssertionError
    \<and> search_datasets c expressions source_exprs select_fields with_source_ids limit
        = (Inl AssertionError, c))
   \<and> search_unique_datasets_query expressions select_fields limit = Inl NotImplementedError
   \<and> search_unique_datasets c expressions select_fields limit = (Inl NotImplementedError, c)
   \<and> (source_exprs = None \<and> \<not> with_source_ids \<longrightarrow>
        (\<exists>q. search_datasets_query expressions source_exprs select_fields with_source_ids limit
               = Inr q)
      \<and> executed (snd (search_datasets c expressions source_exprs select_fields
                          with_source_ids limit)) = Suc (executed c))"
proof (intro conjI impI)
  assume lineage: "source_exprs \<noteq> None \<or> with_source_ids"
  then show q: "search_datasets_query expressions source_exprs select_fields with_source_ids limit
        = Inl AssertionError"
    by (auto simp add: search_datasets_query_def)
  show "search_datasets c expressions source_exprs select_fields with_source_ids limit
        = (Inl AssertionError, c)"
    by (simp add: search_datasets_def q)
next
  show "search_unique_datasets_query expressions select_fields limit = Inl NotImplementedError"
    by (simp add: search_unique_datasets_query_def)
  show "search_unique_datasets c expressions select_fields limit = (Inl NotImplementedError, c)"
    by (simp add: search_unique_datasets_def search_unique_datasets_query_def)
next
  assume plain: "source_exprs = None \<and> \<not> with_source_ids"
  then show "\<exists>q. search_datasets_query expressions source_exprs select_fields with_source_ids limit
               = Inr q"
    by (simp add: search_datasets_query_def Let_def)
  show "executed (snd (search_datasets c expressions source_exprs select_fields
                          with_source_ids limit)) = Suc (executed c)"
    using plain
    by (simp add: search_datasets_def search_datasets_query_def Let_def execute_def sent_def)
qed


theorem lineage_and_unique_search_unsupported_witness:
  "search_datasets conn0 [] (Some []) [] False None = (Inl AssertionError, conn0)
   \<and> search_datasets_query [] None [] True (Some 5) = Inl AssertionError
   \<and> search_unique_datasets conn0 [] [] None = (Inl NotImplementedError, conn0)"
proof -
  have l1: "Some ([] :: expression list) \<noteq> None \<or> False"
    by simp
  have l2: "(None :: expression list option) \<noteq> None \<or> True"
    by simp
  note a = lineage_and_unique_search_unsupported [of "Some []" False "[]" "[]" None conn0,
      THEN conjunct1, THEN mp, OF l1, THEN conjunct2]
  note b = lineage_and_unique_search_unsupported [of None True "[]" "[]" "Some 5" conn0,
      THEN conjunct1, THEN mp, OF l2, THEN conjunct1]
  note u = lineage_and_unique_search_unsupported [of None False "[]" "[]" None conn0,
      THEN conjunct2, THEN conjunct2, THEN conjunct1]
  show ?thesis
    by (intro conjI a b u)
qed

section \<open>Join resolution\<close>

lemma join_tables_filter:
  "join_tables source_table expressions fields' =
     filter (\<lambda>t. t \<in> required_relations expressions fields' \<and> t \<noteq> source_table)
       [DatasetLocation, Dataset, Product, MetadataType]"
  by (cases "expressions = []"; cases "fields' = []")
     (simp_all add: join_tables_def required_relations_def sort_order_hack_def Let_def)

text \<open>
  Claim C8. \<^verbatim>\<open>_join_tables\<close> returns the relations of the precedence list
  \<open>DatasetLocation, Dataset, Product, MetadataType\<close> that some expression or field
  requires and that are not the anchor, in the order of that list. So the result has no
  duplicate, does not hold the anchor, holds no relation that no input requires, and
  depends on the expressions and fields only through the set of relations they require,
  not on their order or number. When every required relation is one of the four known
  relations (as for every field this module defines), the result holds exactly the
  required relations but the anchor.
\<close>

theorem join_tables_required_in_order:
  "join_tables source_table expressions fields' =
     filter (\<lambda>t. t \<in> required_relations expressions fields' \<and> t \<noteq> source_table)
       [DatasetLocation, Dataset, Product, MetadataType]
   \<and> distinct (join_tables source_table expressions fields')
   \<and> source_table \<notin> set (join_tables source_table expressions fields')
   \<and> set (join_tables source_table expressions fields')
       \<subseteq> required_relations expressions fields'
   \<and> (required_relations expressions fields' \<subseteq> {DatasetLocation, Dataset, Product, MetadataType}
        \<longrightarrow> set (join_tables source_table expressions fields')
              = required_relations expressions fields' - {source_table})
   \<and> (required_relations expressions fields' = required_relations expressions2 fields2
        \<longrightarrow> join_tables source_table expressions fields'
              = join_tables source_table expressions2 fields2)"
proof (intro conjI impI)
  show "join_tables source_table expressions fields' =
     filter (\<lambda>t. t \<in> required_relations expressions fields' \<and> t \<noteq> source_table)
       [DatasetLocation, Dataset, Product, MetadataType]"
    by (rule join_tables_filter)
  have d: "distinct [DatasetLocation, Dataset, Product, MetadataType]"
    by simp
  show "distinct (join_tables source_table expressions fields')"
    unfolding join_tables_filter using d by (rule distinct_filter)
  show "source_table \<notin> set (join_tables source_table expressions fields')"
    unfolding join_tables_filter by (simp del: filter.simps)
  show "set (join_tables source_table expressions fields')
       \<subseteq> required_relations expressions fields'"
    unfolding join_tables_filter by (simp del: filter.simps) blast
next
  assume "required_relations expressions fields' \<subseteq> {DatasetLocation, Dataset, Product, MetadataType}"
  then show "set (join_tables source_table expressions fields')
              = required_relations expressions fields' - {source_table}"
    unfolding join_tables_filter by (simp del: filter.simps) blast
next
  assume "required_relations expressions fields' = required_relations expressions2 fields2"
  then show "join_tables source_table expressions fields'
              = join_tables source_table expressions2 fields2"
    unfolding join_tables_filter by simp
qed


theorem join_tables_required_in_order_witness:
  "join_tables Dataset [product_is ''x'', product_id_is 1, uri_is ''s3'' ''//b'']
       [native_field ''metadata_type'' MetadataType]
     = [DatasetLocation, Product, MetadataType]
   \<and> set (join_tables Dataset [product_is ''x'', product_id_is 1, uri_is ''s3'' ''//b'']
       [native_field ''metadata_type'' MetadataType])
     = {DatasetLocation, Product, MetadataType}
   \<and> join_tables Dataset [product_is ''x'', product_id_is 1, uri_is ''s3'' ''//b'']
       [native_field ''metadata_type'' MetadataType]
     = join_tables Dataset [uri_is ''s3'' ''//b'', product_is ''x'', product_is ''x'']
       [native_field ''metadata_type'' MetadataType, native_field ''id'' Dataset]"
proof -
  let ?es = "[product_is ''x'', product_id_is 1, uri_is ''s3'' ''//b'']"
  let ?fs = "[native_field ''metadata_type'' MetadataType]"
  let ?es2 = "[uri_is ''s3'' ''//b'', product_is ''x'', product_is ''x'']"
  let ?fs2 = "[native_field ''metadata_type'' MetadataType, native_field ''id'' Dataset]"
  have r: "required_relations ?es ?fs = {DatasetLocation, Dataset, Product, MetadataType}"
    by (auto simp add: required_relations_def product_is_def product_id_is_def uri_is_def
        native_field_def)
  have r2: "required_relations ?es2 ?fs2 = {DatasetLocation, Dataset, Product, MetadataType}"
    by (auto simp add: required_relations_def product_is_def product_id_is_def uri_is_def
        native_field_def)
  have known: "required_relations ?es ?fs \<subseteq> {DatasetLocation, Dataset, Product, MetadataType}"
    unfolding r by simp
  have same: "required_relations ?es ?fs = required_relations ?es2 ?fs2"
    by (simp only: r r2)
  note t = join_tables_required_in_order [of Dataset ?es ?fs ?es2 ?fs2]
  have a: "join_tables Dataset ?es ?fs = [DatasetLocation, Product, MetadataType]"
    unfolding t [THEN conjunct1] r by simp
  have b: "set (join_tables Dataset ?es ?fs) = {DatasetLocation, Product, MetadataType}"
    unfolding t [THEN conjunct2, THEN conjunct2, THEN conjunct2, THEN conjunct2, THEN conjunct1,
        THEN mp, OF known] r
    by auto
  note c = t [THEN conjunct2, THEN conjunct2, THEN conjunct2, THEN conjunct2, THEN conjunct2,
      THEN mp, OF same]
  show ?thesis
    by (intro conjI a b c)
qed

section \<open>The active fields of a product\<close>

lemma active_names_skip:
  "\<not> active_for doc f \<Longrightarrow> \<forall>e. raises doc f e \<longrightarrow> absence_error e \<Longrightarrow>
     active_names (f # rest) doc = active_names rest doc"
  by (auto simp add: active_for_def raises_def absence_error_def
      split: option.splits extract_result.splits)

lemma active_names_yield:
  "active_for doc f \<Longrightarrow>
     active_names (f # rest) doc =
       (case active_names rest doc of Inl e \<Rightarrow> Inl e | Inr names \<Rightarrow> Inr (field_name f # names))"
  by (auto simp add: active_for_def split: option.splits extract_result.splits)

lemma active_names_raise:
  "raises doc f e \<Longrightarrow> \<not> absence_error e \<Longrightarrow> active_names (f # rest) doc = Inl e"
  by (auto simp add: raises_def absence_error_def split: option.splits extract_result.splits)


lemma active_names_propagate:
  "\<forall>g \<in> set before. \<forall>e'. raises doc g e' \<longrightarrow> absence_error e' \<Longrightarrow>
   raises doc f e \<Longrightarrow> \<not> absence_error e \<Longrightarrow>
     active_names (before @ f # rest) doc = Inl e"
proof (induction before)
  case Nil
  then show ?case
    by (simp add: active_names_raise del: active_names.simps)
next
  case (Cons g gs)
  have ih: "active_names (gs @ f # rest) doc = Inl e"
    using Cons.prems by (intro Cons.IH) simp_all
  have soft: "\<forall>e'. raises doc g e' \<longrightarrow> absence_error e'"
    using Cons.prems(1) by simp
  show ?case
  proof (cases "active_for doc g")
    case True
    then show ?thesis
      using active_names_yield [of doc g "gs @ f # rest"] by (simp add: ih del: active_names.simps)
  next
    case False
    then show ?thesis
      using active_names_skip [of doc g "gs @ f # rest"] soft
      by (simp add: ih del: active_names.simps)
  qed
qed




section \<open>Updating a product and its datasets\<close>

lemma update_product_no_product:
  "\<not> (\<exists>p \<in> set (product_rows c). p_name p = n) \<Longrightarrow>
     update_product c n md mt fs defn umt cc = (Inl TypeError, product_updated c n md mt defn)"
  by (simp add: update_product_def Let_def product_updated_def filter_empty_conv
      update_where_def cong: map_cong)

lemma update_product_outside_transaction:
  "filter (\<lambda>p. p_name p = n) (product_rows c) = p # ps \<Longrightarrow> \<not> in_transaction c \<Longrightarrow>
     update_product c n md mt fs defn True cc = (Inl RuntimeError, product_updated c n md mt defn)"
  by (simp add: update_product_def Let_def product_updated_def in_transaction_def sent_def)

lemma update_product_in_transaction:
  "filter (\<lambda>p. p_name p = n) (product_rows c) = p # ps \<Longrightarrow> in_transaction c \<Longrightarrow>
     dataset_rows (snd (update_product c n md mt fs defn True cc)) =
       map (\<lambda>d. if d_product_ref d = p_id p then d\<lparr>d_metadata_type_ref := Some mt\<rparr> else d)
         (dataset_rows c)
     \<and> product_rows (snd (update_product c n md mt fs defn True cc)) =
         product_rows (product_updated c n md mt defn)
     \<and> in_transaction (snd (update_product c n md mt fs defn True cc))
     \<and> executed (snd (update_product c n md mt fs defn True cc)) = executed c + 2"
  by (simp add: update_product_def Let_def product_updated_def in_transaction_def sent_def
      update_where_def setup_product_fields_def split: sum.splits)


lemma product_updated_keeps_datasets:
  "dataset_rows (product_updated c n md mt defn) = dataset_rows c
   \<and> executed (product_updated c n md mt defn) = executed c + 1"
  by (simp add: product_updated_def sent_def)

text \<open>
  Claim C7. With \<^verbatim>\<open>update_metadata_type=True\<close> and a connection that is not in a
  transaction, \<^verbatim>\<open>update_product\<close> ends in an error and the dataset table is as it
  was; when a product of the given name exists the error is the \<^verbatim>\<open>RuntimeError\<close> of
  the transaction check and the connection is the one the product update left, so no
  dataset statement was sent. (With no product of that name the call fails before the
  check, on \<^verbatim>\<open>res.first()[0]\<close>.) In a transaction, the datasets whose
  \<open>product_ref\<close> is the id of the updated product get the new metadata type and no other
  dataset changes, on the same connection, still in its transaction, right after the
  product update: two statements were sent.
\<close>

theorem update_product_repoints_in_transaction:
  "(\<not> in_transaction c \<longrightarrow>
      (\<exists>e. fst (update_product c n md mt fs defn True cc) = Inl e)
    \<and> dataset_rows (snd (update_product c n md mt fs defn True cc)) = dataset_rows c)
   \<and> (filter (\<lambda>p. p_name p = n) (product_rows c) = p # ps \<longrightarrow>
       (\<not> in_transaction c \<longrightarrow>
          update_product c n md mt fs defn True cc
            = (Inl RuntimeError, product_updated c n md mt defn))
     \<and> (in_transaction c \<longrightarrow>
          dataset_rows (snd (update_product c n md mt fs defn True cc)) =
            map (\<lambda>d. if d_product_ref d = p_id p then d\<lparr>d_metadata_type_ref := Some mt\<rparr> else d)
              (dataset_rows c)
        \<and> product_rows (snd (update_product c n md mt fs defn True cc)) =
            product_rows (product_updated c n md mt defn)
        \<and> in_transaction (snd (update_product c n md mt fs defn True cc))
        \<and> executed (snd (update_product c n md mt fs defn True cc)) = executed c + 2))"
proof (intro conjI impI)
  assume out: "\<not> in_transaction c"
  have "(\<exists>e. fst (update_product c n md mt fs defn True cc) = Inl e)
    \<and> dataset_rows (snd (update_product c n md mt fs defn True cc)) = dataset_rows c"
  proof (cases "filter (\<lambda>p. p_name p = n) (product_rows c)")
    case Nil
    then have "\<not> (\<exists>p \<in> set (product_rows c). p_name p = n)"
      by (simp add: filter_empty_conv)
    then show ?thesis
      by (simp add: update_product_no_product product_updated_keeps_datasets)
  next
    case (Cons q qs)
    then show ?thesis
      using out by (simp add: update_product_outside_transaction product_updated_keeps_datasets)
  qed
  then show "\<exists>e. fst (update_product c n md mt fs defn True cc) = Inl e"
    and "dataset_rows (snd (update_product c n md mt fs defn True cc)) = dataset_rows c"
    by simp_all
next
  assume "filter (\<lambda>p. p_name p = n) (product_rows c) = p # ps" and "\<not> in_transaction c"
  then show "update_product c n md mt fs defn True cc
            = (Inl RuntimeError, product_updated c n md mt defn)"
    by (rule update_product_outside_transaction)
next
  assume ex: "filter (\<lambda>p. p_name p = n) (product_rows c) = p # ps" and tx: "in_transaction c"
  note r = update_product_in_transaction [OF ex tx, of md mt fs defn cc]
  show "dataset_rows (snd (update_product c n md mt fs defn True cc)) =
            map (\<lambda>d. if d_product_ref d = p_id p then d\<lparr>d_metadata_type_ref := Some mt\<rparr> else d)
              (dataset_rows c)"
    by (rule r [THEN conjunct1])
  show "product_rows (snd (update_product c n md mt fs defn True cc)) =
            product_rows (product_updated c n md mt defn)"
    by (rule r [THEN conjunct2, THEN conjunct1])
  show "in_transaction (snd (update_product c n md mt fs defn True cc))"
    by (rule r [THEN conjunct2, THEN conjunct2, THEN conjunct1])
  show "executed (snd (update_product c n md mt fs defn True cc)) = executed c + 2"
    by (rule r [THEN conjunct2, THEN conjunct2, THEN conjunct2])
qed

theorem update_product_repoints_in_transaction_witness:
  "fst (update_product (conn2 False) ''ls8'' DNull 5 fields1 defn1 True False) = Inl RuntimeError
   \<and> dataset_rows (snd (update_product (conn2 False) ''ls8'' DNull 5 fields1 defn1 True False))
       = [ds1, ds2]
   \<and> map p_metadata_type_ref
        (product_rows (snd (update_product (conn2 False) ''ls8'' DNull 5 fields1 defn1 True False)))
       = [5]
   \<and> map d_metadata_type_ref
        (dataset_rows (snd (update_product (conn2 True) ''ls8'' DNull 5 fields1 defn1 True False)))
       = [Some 1, Some 5]
   \<and> in_transaction (snd (update_product (conn2 True) ''ls8'' DNull 5 fields1 defn1 True False))"
proof -
  have ex: "filter (\<lambda>p. p_name p = ''ls8'') (product_rows (conn2 tx)) = product1 # []" for tx
    by (simp add: conn2_def product1_def)
  have out: "\<not> in_transaction (conn2 False)"
    by (simp add: in_transaction_def conn2_def)
  have tx: "in_transaction (conn2 True)"
    by (simp add: in_transaction_def conn2_def)
  note o = update_product_repoints_in_transaction
      [of "conn2 False" "''ls8''" DNull 5 fields1 defn1 False product1 "[]",
       THEN conjunct2, THEN mp, OF ex, THEN conjunct1, THEN mp, OF out]
  note i = update_product_repoints_in_transaction
      [of "conn2 True" "''ls8''" DNull 5 fields1 defn1 False product1 "[]",
       THEN conjunct2, THEN mp, OF ex, THEN conjunct2, THEN mp, OF tx]
  have a: "fst (update_product (conn2 False) ''ls8'' DNull 5 fields1 defn1 True False)
      = Inl RuntimeError"
    unfolding o by simp
  have b: "dataset_rows (snd (update_product (conn2 False) ''ls8'' DNull 5 fields1 defn1 True False))
       = [ds1, ds2]"
    unfolding o by (simp add: product_updated_def sent_def conn2_def)
  have c: "map p_metadata_type_ref
        (product_rows (snd (update_product (conn2 False) ''ls8'' DNull 5 fields1 defn1 True False)))
       = [5]"
    unfolding o by (simp add: product_updated_def sent_def conn2_def update_where_def product1_def)
  have d: "map d_metadata_type_ref
        (dataset_rows (snd (update_product (conn2 True) ''ls8'' DNull 5 fields1 defn1 True False)))
       = [Some 1, Some 5]"
    unfolding i [THEN conjunct1] by (simp add: conn2_def ds1_def ds2_def product1_def)
  show ?thesis
    by (intro conjI a b c d i [THEN conjunct2, THEN conjunct2, THEN conjunct1])
qed

section \<open>Counting through time\<close>


declare series_up.simps [simp del]








lemma time_query_series:
  "tq_start (count_datasets_through_time_query start end_time period tf es) = start"
  "tq_stop (count_datasets_through_time_query start end_time period tf es) = end_time"
  "tq_step (count_datasets_through_time_query start end_time period tf es) = period"
  by (simp_all add: count_datasets_through_time_query_def Let_def)



lemma through_time_zero_period:
  "count_datasets_through_time c start end_time 0 tf es = (Inl DataError, sent c)"
  unfolding count_datasets_through_time_def execute_time_query_def time_query_series
  by (simp add: generate_series_def)




section \<open>Counting and searching\<close>

lemma count_datasets_rows:
  "fst (count_datasets c es) =
     length (filter
       (\<lambda>r. (case from_dataset r of None \<Rightarrow> False | Some d \<Rightarrow> d_archived d = None)
            \<and> (\<forall>e \<in> set es. expression_holds e r))
       (cross c (filter (\<lambda>t. t = Dataset \<or> (\<exists>e \<in> set es. t \<in> set (mentioned e))) all_tables)))"
proof -
  let ?q = "count_datasets_query es"
  have tabs: "query_tables ?q =
      filter (\<lambda>t. t = Dataset \<or> (\<exists>e \<in> set es. t \<in> set (mentioned e))) all_tables"
    unfolding query_tables_def count_datasets_query_def Let_def
    by (rule filter_cong)
       (auto simp add: archived_is_null_def alchemify_expressions_def raw_expr_tables)
  have sel: "selected ?q r =
      ((case from_dataset r of None \<Rightarrow> False | Some d \<Rightarrow> d_archived d = None)
            \<and> (\<forall>e \<in> set es. expression_holds e r))" for r
    unfolding selected_def count_datasets_query_def Let_def
    by (auto simp add: archived_is_null_def alchemify_expressions_def raw_expr_holds
        list_all_iff)
  have lim: "q_limit ?q = None"
    by (simp add: count_datasets_query_def Let_def)
  show ?thesis
    unfolding count_datasets_def scalar_def query_rows_def Let_def lim tabs
    by (simp add: sel cong: filter_cong)
qed

lemma search_datasets_rows:
  "fst (search_datasets c es None [] False None) =
     Inr (filter
       (\<lambda>r. (\<forall>t \<in> set (join_tables Dataset es []). on_clause t r)
            \<and> (case from_dataset r of None \<Rightarrow> False | Some d \<Rightarrow> d_archived d = None)
            \<and> (\<forall>e \<in> set es. expression_holds e r))
       (cross c (filter (\<lambda>t. t = Dataset \<or> t \<in> set (join_tables Dataset es [])
                            \<or> (\<exists>e \<in> set es. t \<in> set (mentioned e))) all_tables)))"
proof -
  let ?q = "\<lparr>q_columns = dataset_select_fields, q_select_from = [Dataset],
             q_joins = join_tables Dataset es [],
             q_where = [sql_and (archived_is_null # alchemify_expressions es)], q_limit = None\<rparr>"
  have q: "search_datasets_query es None [] False None = Inr ?q"
    by (simp add: search_datasets_query_def Let_def)
  have tabs: "query_tables ?q =
      filter (\<lambda>t. t = Dataset \<or> t \<in> set (join_tables Dataset es [])
                            \<or> (\<exists>e \<in> set es. t \<in> set (mentioned e))) all_tables"
    unfolding query_tables_def
    by (rule filter_cong)
       (auto simp add: sql_and_def archived_is_null_def alchemify_expressions_def raw_expr_tables
        dataset_select_fields_def)
  have sel: "selected ?q r =
      ((\<forall>t \<in> set (join_tables Dataset es []). on_clause t r)
            \<and> (case from_dataset r of None \<Rightarrow> False | Some d \<Rightarrow> d_archived d = None)
            \<and> (\<forall>e \<in> set es. expression_holds e r))" for r
    unfolding selected_def
    by (auto simp add: sql_and_def archived_is_null_def alchemify_expressions_def raw_expr_holds
        list_all_iff)
  show ?thesis
    unfolding search_datasets_def q
    by (simp add: execute_def query_rows_def tabs sel cong: filter_cong)
qed


text \<open>
  Claim C1. \<^verbatim>\<open>count_datasets\<close> and \<^verbatim>\<open>search_datasets\<close> filter alike: the dataset
  is not archived and every expression is true. They do not join alike. The search
  selects from the dataset relation and joins what \<^verbatim>\<open>_join_tables\<close> returns; the
  count calls neither \<^verbatim>\<open>select_from\<close> nor \<^verbatim>\<open>join\<close>, so a relation an expression
  mentions stands unjoined beside the dataset relation and the count is taken over the
  product of the two. The count is the number of rows of the search when the expressions
  require no relation but the dataset relation. With an expression on the product name
  the two differ: in \<open>conn3\<close> the only dataset belongs to the product \<open>s2\<close>, the search
  for the product \<open>ls8\<close> returns no row and the count returns 1.
\<close>

theorem count_datasets_builds_no_join:
  "q_joins (count_datasets_query es) = []
   \<and> q_select_from (count_datasets_query es) = []
   \<and> (\<exists>q. search_datasets_query es None [] False None = Inr q
          \<and> q_joins q = join_tables Dataset es [] \<and> q_select_from q = [Dataset])
   \<and> fst (count_datasets c es) =
       length (filter
         (\<lambda>r. (case from_dataset r of None \<Rightarrow> False | Some d \<Rightarrow> d_archived d = None)
              \<and> (\<forall>e \<in> set es. expression_holds e r))
         (cross c (filter (\<lambda>t. t = Dataset \<or> (\<exists>e \<in> set es. t \<in> set (mentioned e)))
                     all_tables)))
   \<and> fst (search_datasets c es None [] False None) =
       Inr (filter
         (\<lambda>r. (\<forall>t \<in> set (join_tables Dataset es []). on_clause t r)
              \<and> (case from_dataset r of None \<Rightarrow> False | Some d \<Rightarrow> d_archived d = None)
              \<and> (\<forall>e \<in> set es. expression_holds e r))
         (cross c (filter (\<lambda>t. t = Dataset \<or> t \<in> set (join_tables Dataset es [])
                              \<or> (\<exists>e \<in> set es. t \<in> set (mentioned e))) all_tables)))
   \<and> (join_tables Dataset es [] = [] \<longrightarrow>
        map_sum id length (fst (search_datasets c es None [] False None))
          = Inr (fst (count_datasets c es)))"
proof (intro conjI impI)
  show "q_joins (count_datasets_query es) = []"
    and "q_select_from (count_datasets_query es) = []"
    by (simp_all add: count_datasets_query_def Let_def)
  show "\<exists>q. search_datasets_query es None [] False None = Inr q
          \<and> q_joins q = join_tables Dataset es [] \<and> q_select_from q = [Dataset]"
    by (simp add: search_datasets_query_def Let_def)
  show "fst (count_datasets c es) =
       length (filter
         (\<lambda>r. (case from_dataset r of None \<Rightarrow> False | Some d \<Rightarrow> d_archived d = None)
              \<and> (\<forall>e \<in> set es. expression_holds e r))
         (cross c (filter (\<lambda>t. t = Dataset \<or> (\<exists>e \<in> set es. t \<in> set (mentioned e)))
                     all_tables)))"
    by (rule count_datasets_rows)
  show "fst (search_datasets c es None [] False None) =
       Inr (filter
         (\<lambda>r. (\<forall>t \<in> set (join_tables Dataset es []). on_clause t r)
              \<and> (case from_dataset r of None \<Rightarrow> False | Some d \<Rightarrow> d_archived d = None)
              \<and> (\<forall>e \<in> set es. expression_holds e r))
         (cross c (filter (\<lambda>t. t = Dataset \<or> t \<in> set (join_tables Dataset es [])
                              \<or> (\<exists>e \<in> set es. t \<in> set (mentioned e))) all_tables)))"
    by (rule search_datasets_rows)
next
  assume "join_tables Dataset es [] = []"
  then show "map_sum id length (fst (search_datasets c es None [] False None))
          = Inr (fst (count_datasets c es))"
    unfolding search_datasets_rows count_datasets_rows by simp
qed

theorem count_datasets_builds_no_join_witness:
  "join_tables Dataset [product_is ''ls8''] [] = [Product]
   \<and> fst (search_datasets conn3 [product_is ''ls8''] None [] False None) = Inr []
   \<and> fst (count_datasets conn3 [product_is ''ls8'']) = 1
   \<and> fst (count_datasets conn3 [product_id_is 1]) = 1
   \<and> map_sum id length (fst (search_datasets conn3 [product_id_is 1] None [] False None)) = Inr 1"
proof -
  have j: "join_tables Dataset [product_is ''ls8''] [] = [Product]"
    by (simp add: join_tables_def sort_order_hack_def product_is_def native_field_def)
  have j1: "join_tables Dataset [product_id_is 1] [] = []"
    by (simp add: join_tables_def sort_order_hack_def product_id_is_def native_field_def)
  note t = count_datasets_builds_no_join [of "[product_is ''ls8'']" conn3]
  note u = count_datasets_builds_no_join [of "[product_id_is 1]" conn3]
  have s: "fst (search_datasets conn3 [product_is ''ls8''] None [] False None) = Inr []"
    unfolding t [THEN conjunct2, THEN conjunct2, THEN conjunct2, THEN conjunct2, THEN conjunct1] j
    by (simp add: product_is_def all_tables_def)
       (simp add: conn3_def ds1_def product1_def product2_def)
  have n: "fst (count_datasets conn3 [product_is ''ls8'']) = 1"
    unfolding t [THEN conjunct2, THEN conjunct2, THEN conjunct2, THEN conjunct1]
    by (simp add: product_is_def all_tables_def)
       (simp add: conn3_def ds1_def product1_def product2_def)
  have n1: "fst (count_datasets conn3 [product_id_is 1]) = 1"
    unfolding u [THEN conjunct2, THEN conjunct2, THEN conjunct2, THEN conjunct1]
    by (simp add: product_id_is_def all_tables_def)
       (simp add: conn3_def ds1_def)
  have s1: "map_sum id length (fst (search_datasets conn3 [product_id_is 1] None [] False None))
      = Inr 1"
    unfolding u [THEN conjunct2, THEN conjunct2, THEN conjunct2, THEN conjunct2, THEN conjunct2,
        THEN mp, OF j1] n1 ..
  show ?thesis
    by (intro conjI j s n n1 s1)
qed

end
